theory Spec2Isabelle
  imports Main
begin

section \<open>JavaScript strings\<close>

text \<open>
  A string is a list of code units; the model keeps the code units U+0000 to U+00FF, which
  cover everything \<^verbatim>\<open>engine.ts\<close> compares a character against. Of these,
  \<^verbatim>\<open>String.prototype.trim\<close> strips TAB, LF, VT, FF, CR, SPACE and NBSP.
\<close>

definition isWhiteSpace :: "char \<Rightarrow> bool" where
  "isWhiteSpace c =
     (c \<in> set [CHR 0x09, CHR 0x0A, CHR 0x0B, CHR 0x0C, CHR 0x0D, CHR 0x20, CHR 0xA0])"

definition trim :: "string \<Rightarrow> string" where
  "trim s = rev (dropWhile isWhiteSpace (rev (dropWhile isWhiteSpace s)))"

definition lower_char :: "char \<Rightarrow> char" where
  "lower_char c =
     (let n = (of_char c :: nat)
      in if (65 \<le> n \<and> n \<le> 90) \<or> (192 \<le> n \<and> n \<le> 222 \<and> n \<noteq> 215)
         then char_of (n + 32) else c)"

definition toLowerCase :: "string \<Rightarrow> string" where
  "toLowerCase s = map lower_char s"

text \<open>\<^verbatim>\<open>s.substring(a, b)\<close> swaps its bounds when they are out of order and clamps
  them to the length; \<^verbatim>\<open>s.substr(a, n)\<close> takes \<open>n\<close> code units from \<open>a\<close>.\<close>

definition substring :: "nat \<Rightarrow> nat \<Rightarrow> string \<Rightarrow> string" where
  "substring a b s = take (max a b - min a b) (drop (min a b) s)"

definition substr :: "nat \<Rightarrow> nat \<Rightarrow> string \<Rightarrow> string" where
  "substr a n s = take n (drop a s)"

definition startsWith :: "string \<Rightarrow> string \<Rightarrow> bool" where
  "startsWith s p = (take (length p) s = p)"

text \<open>\<^verbatim>\<open>s.split(' ')\<close> with a one-character separator: a new piece starts after
  every occurrence of the separator, so two separators in a row give an empty piece and the
  empty string gives one empty piece.\<close>

fun split_from :: "char \<Rightarrow> string \<Rightarrow> string \<Rightarrow> string list" where
  "split_from c cur [] = [cur]"
| "split_from c cur (x # xs) =
     (if x = c then cur # split_from c [] xs else split_from c (cur @ [x]) xs)"

definition split_str :: "char \<Rightarrow> string \<Rightarrow> string list" where
  "split_str c s = split_from c [] s"

text \<open>\<^verbatim>\<open>xs.join(sep)\<close>; \<^verbatim>\<open>xs.join('')\<close> is \<^const>\<open>concat\<close>.\<close>

fun join_str :: "string \<Rightarrow> string list \<Rightarrow> string" where
  "join_str sep [] = []"
| "join_str sep [x] = x"
| "join_str sep (x # y # ys) = x @ sep @ join_str sep (y # ys)"

text \<open>\<^verbatim>\<open>String(v)\<close> for a value that is a string or \<^verbatim>\<open>null\<close>, as
  \<^verbatim>\<open>RegExp.prototype.test\<close> and a template literal apply it; a missing optional
  field reads \<^verbatim>\<open>undefined\<close>.\<close>

definition String_of_nullable :: "string option \<Rightarrow> string" where
  "String_of_nullable v = (case v of None \<Rightarrow> ''null'' | Some x \<Rightarrow> x)"

definition String_of_optional :: "string option \<Rightarrow> string" where
  "String_of_optional v = (case v of None \<Rightarrow> ''undefined'' | Some x \<Rightarrow> x)"

section \<open>The two regular expressions\<close>

text \<open>The class \<^verbatim>\<open>\w\<close> is \<^verbatim>\<open>[A-Za-z0-9_]\<close>; \<^verbatim>\<open>\b\<close> holds at a
  position when exactly one of the characters before and after it is a word character (the
  ends of the string count as non-word).\<close>

definition word_char :: "char \<Rightarrow> bool" where
  "word_char c =
     (c \<in> set (''abcdefghijklmnopqrstuvwxyz'' @ ''ABCDEFGHIJKLMNOPQRSTUVWXYZ'' @ ''0123456789_''))"

definition hex_char :: "char \<Rightarrow> bool" where
  "hex_char c = (c \<in> set ''0123456789abcdef'')"

definition word_boundary :: "string \<Rightarrow> nat \<Rightarrow> bool" where
  "word_boundary s i =
     ((0 < i \<and> word_char (s ! (i - 1))) \<noteq> (i < length s \<and> word_char (s ! i)))"

text \<open>\<^verbatim>\<open>HASH_PATTERN = /\b[0-9a-f]{5,40}\b/\<close>: a match starts at some position \<open>i\<close>
  and takes \<open>n\<close> hexadecimal digits, \<open>5 \<le> n \<le> 40\<close>, with a word boundary on each side.
  \<^verbatim>\<open>test\<close> searches every start position.\<close>

definition HASH_PATTERN_at :: "string \<Rightarrow> nat \<Rightarrow> nat \<Rightarrow> bool" where
  "HASH_PATTERN_at s i n =
     (i + n \<le> length s \<and> word_boundary s i \<and> list_all hex_char (take n (drop i s))
      \<and> word_boundary s (i + n))"

definition HASH_PATTERN_test :: "string \<Rightarrow> bool" where
  "HASH_PATTERN_test s =
     list_ex (\<lambda>i. list_ex (\<lambda>n. HASH_PATTERN_at s i n) [5..<41]) [0..<Suc (length s)]"

text \<open>\<^verbatim>\<open>GIT_REPO_PATTERN = /\w+\/\w+/\<close>: a match starts at some position \<open>i\<close>, takes
  \<open>a \<ge> 1\<close> word characters, a slash, and \<open>b \<ge> 1\<close> word characters. The pattern has no
  anchors, so the match may lie anywhere inside the string.\<close>

definition GIT_REPO_PATTERN_at :: "string \<Rightarrow> nat \<Rightarrow> nat \<Rightarrow> nat \<Rightarrow> bool" where
  "GIT_REPO_PATTERN_at s i a b =
     (i + a + 1 + b \<le> length s \<and> list_all word_char (take a (drop i s))
      \<and> s ! (i + a) = CHR ''/'' \<and> list_all word_char (take b (drop (i + a + 1) s)))"

definition GIT_REPO_PATTERN_test :: "string \<Rightarrow> bool" where
  "GIT_REPO_PATTERN_test s =
     list_ex (\<lambda>i. list_ex (\<lambda>a. list_ex (\<lambda>b. GIT_REPO_PATTERN_at s i a b)
        [1..<Suc (length s)]) [1..<Suc (length s)]) [0..<Suc (length s)]"

section \<open>The subprocess and the promise\<close>

text \<open>
  A child process that runs, as \<^verbatim>\<open>execGit\<close> observes it: the \<^verbatim>\<open>data\<close> events of the
  two streams in arrival order, each already decoded by \<^verbatim>\<open>toString\<close>, and then the
  \<^verbatim>\<open>exit\<close> event with its code (\<^verbatim>\<open>null\<close> when a signal ended the process).
\<close>

datatype chunk = Stdout string | Stderr string

record child_process =
  events :: "chunk list"
  exit_code :: "int option"

record out_buffers =
  stdout :: "string list"
  stderr :: "string list"

fun on_data :: "out_buffers \<Rightarrow> chunk \<Rightarrow> out_buffers" where
  "on_data out (Stdout d) = out\<lparr>stdout := stdout out @ [d]\<rparr>"
| "on_data out (Stderr d) = out\<lparr>stderr := stderr out @ [d]\<rparr>"

text \<open>
  What \<^verbatim>\<open>spawn\<close> leads to. Either the process runs and exits, or it cannot be spawned
  (the binary is missing, say): then the child emits \<^verbatim>\<open>error\<close> and no \<^verbatim>\<open>exit\<close>. The
  environment is a function from its own state, the command and the argument vector to
  the outcome and the next state. A process that is spawned and never exits leaves the
  promise pending for ever and is not an outcome of this model.
\<close>

datatype run = Exits child_process | SpawnError

type_synonym 'w spawn = "'w \<Rightarrow> string \<Rightarrow> string list \<Rightarrow> run \<times> 'w"

text \<open>The observable state: the environment, the processes spawned so far and the values
  handed to \<^verbatim>\<open>update\<close>'s callback so far.\<close>

record 'w sys =
  world :: 'w
  spawned :: "(string \<times> string list) list"
  reported :: "string list"

text \<open>
  An asynchronous function ends with a value (\<open>Inr\<close>) or without one (\<open>Inl\<close>). Without one,
  its promise is rejected, with a \<^verbatim>\<open>TypeError\<close> (calling \<^verbatim>\<open>undefined\<close>, reading a
  property of \<^verbatim>\<open>null\<close>) or with what \<^verbatim>\<open>rej\<close> was called with; or, \<open>UncaughtError\<close>,
  an \<^verbatim>\<open>error\<close> event was emitted on an emitter without a listener for it: Node throws
  it as an uncaught exception, the promise never settles and the host process ends.
\<close>

datatype error = TypeError | Rejected string | UncaughtError

type_synonym ('w, 'a) async = "'w sys \<Rightarrow> (error + 'a) \<times> 'w sys"

definition resolve :: "'a \<Rightarrow> ('w, 'a) async" where
  "resolve x s = (Inr x, s)"

definition throw :: "error \<Rightarrow> ('w, 'a) async" where
  "throw err s = (Inl err, s)"

definition await :: "('w, 'a) async \<Rightarrow> ('a \<Rightarrow> ('w, 'b) async) \<Rightarrow> ('w, 'b) async" where
  "await m k s = (case m s of (Inl err, s') \<Rightarrow> (Inl err, s') | (Inr x, s') \<Rightarrow> k x s')"

text \<open>\<^verbatim>\<open>p.catch(err => null)\<close>: it handles a rejection; a promise that never settles never
  reaches it.\<close>

definition catch_null :: "('w, 'a) async \<Rightarrow> ('w, 'a option) async" where
  "catch_null m s =
     (case m s of
        (Inl UncaughtError, s') \<Rightarrow> (Inl UncaughtError, s')
      | (Inl err, s') \<Rightarrow> (Inr None, s')
      | (Inr x, s') \<Rightarrow> (Inr (Some x), s'))"

section \<open>The engine\<close>

text \<open>
  Modules, commands and flows are values of \<^verbatim>\<open>./module\<close>; the engine only stores and
  forwards them. A module has a name, under which it is registered, and an identity; a
  command and a flow are known by a label.
\<close>

record Module =
  mname :: string
  ident :: nat

type_synonym Command = string
type_synonym TestCommand = string

text \<open>The calls an extension point or the startup hook makes on the engine.\<close>

datatype registration =
    RegisterCommand string Command
  | RegisterModule Module
  | RegisterFlow TestCommand
  | RegisterManagedFlow TestCommand Module

text \<open>Of \<^verbatim>\<open>IvyEngineOptions\<close> the model keeps the fields the engine itself reads; the logger,
  the colour, the data provider, the presence and the client options are handles passed on
  to collaborators.\<close>

record IvyEngineOptions =
  token :: string
  name :: string
  gitRepo :: "string option"
  superPerms :: "string list"
  reportErrors :: "string list"
  startup :: "registration list option"
  eventHandler :: "Module option"

datatype hook = RegisterCommands | RegisterFlows | RegisterModules | StartupRun

datatype event =
    HookCalled hook
  | ModuleRegistered Module
  | CommandRegistered string Command
  | FlowRegistered TestCommand "Module option"
  | ModuleInit Module
  | Login string
  | ReadyListenerAdded

record IvyEngine =
  opts :: IvyEngineOptions
  vcsEnabled :: bool
  moduleManager :: "(string \<times> Module) list"
  commandManager :: "(string \<times> Command) list"
  flows :: "(TestCommand \<times> Module option) list"
  trace :: "event list"

subsection \<open>Permissions\<close>

text \<open>
  \<^verbatim>\<open>Guild\<close>, \<^verbatim>\<open>User\<close> and \<^verbatim>\<open>GuildMember\<close> come from the platform library
  \<^verbatim>\<open>discord.js\<close>, where \<^verbatim>\<open>guild.member(user)\<close> is declared
  \<^verbatim>\<open>GuildMember | null\<close>: it is \<^verbatim>\<open>null\<close> when the user is not a (cached) member of
  the guild. \<^verbatim>\<open>hasPermission\<close> is the platform's check on a member. Calling a method
  on \<^verbatim>\<open>null\<close> throws.
\<close>

record User =
  user_id :: string

record GuildMember =
  hasPermission :: "int \<Rightarrow> bool"

record Guild =
  member :: "User \<Rightarrow> GuildMember option"

definition has :: "IvyEngine \<Rightarrow> User \<Rightarrow> int \<Rightarrow> Guild \<Rightarrow> error + bool" where
  "has e user permission guild =
     (case member guild user of
        None \<Rightarrow> Inl TypeError
      | Some m \<Rightarrow>
          Inr (hasPermission m permission
               \<or> list_ex (\<lambda>i. user_id user = i) (superPerms (opts e))))"

subsection \<open>Version control\<close>

text \<open>\<^verbatim>\<open>execGit\<close> adds listeners for \<^verbatim>\<open>data\<close> on the two streams and for \<^verbatim>\<open>exit\<close>,
  and none for \<^verbatim>\<open>error\<close>.\<close>

definition execGit :: "'w spawn \<Rightarrow> string \<Rightarrow> ('w, string) async" where
  "execGit sp args s =
     (let argv = split_str CHR '' '' args;
          (srv, w') = sp (world s) ''git'' argv;
          s' = s\<lparr>world := w', spawned := spawned s @ [(''git'', argv)]\<rparr>
      in case srv of
           SpawnError \<Rightarrow> (Inl UncaughtError, s')
         | Exits p \<Rightarrow>
             (let out = foldl on_data \<lparr>stdout = [], stderr = []\<rparr> (events p)
              in if exit_code p \<noteq> Some 0
                 then (Inl (Rejected (trim (concat (stderr out)))), s')
                 else (Inr (trim (concat (stdout out))), s')))"

definition getCurrentVersion :: "'w spawn \<Rightarrow> IvyEngine \<Rightarrow> ('w, string) async" where
  "getCurrentVersion sp e =
     (if \<not> vcsEnabled e then resolve ''unknown''
      else await (catch_null (execGit sp ''rev-parse HEAD'')) (\<lambda>res.
        if \<not> HASH_PATTERN_test (String_of_nullable res) then resolve ''unknown''
        else (case res of
                None \<Rightarrow> throw TypeError
              | Some r \<Rightarrow> resolve (substring 0 7 r))))"

definition getReleaseChannel :: "'w spawn \<Rightarrow> IvyEngine \<Rightarrow> ('w, string) async" where
  "getReleaseChannel sp e =
     (if \<not> vcsEnabled e then resolve ''unknown''
      else await (catch_null (execGit sp ''rev-parse --abbrev-ref HEAD'')) (\<lambda>res.
        (case res of
           None \<Rightarrow> resolve ''unknown''
         | Some r \<Rightarrow>
             if r = [] \<or> startsWith r ''fatal'' then resolve ''unknown''
             else resolve r)))"

definition ls_remote_args :: "IvyEngine \<Rightarrow> string \<Rightarrow> string" where
  "ls_remote_args e channel =
     ''ls-remote git@github.com:'' @ String_of_optional (gitRepo (opts e))
       @ ''.git | grep refs/heads/'' @ channel @ '' | cut -f 1''"

definition getUpstreamVersion :: "'w spawn \<Rightarrow> IvyEngine \<Rightarrow> ('w, string) async" where
  "getUpstreamVersion sp e =
     (if \<not> vcsEnabled e then resolve ''unknown''
      else await (getReleaseChannel sp e) (\<lambda>channel.
        await (catch_null (execGit sp (ls_remote_args e channel))) (\<lambda>res.
          (case res of
             None \<Rightarrow> resolve ''unknown''
           | Some r \<Rightarrow> if r = [] then resolve ''unknown'' else resolve (substr 0 7 r)))))"

text \<open>The optional callback \<^verbatim>\<open>then?: (version: String) => void\<close>: calling it records the
  value it was given; calling a missing one is a \<^verbatim>\<open>TypeError\<close>.\<close>

definition call :: "(string \<Rightarrow> unit) option \<Rightarrow> string \<Rightarrow> ('w, unit) async" where
  "call cb v s =
     (case cb of
        None \<Rightarrow> (Inl TypeError, s)
      | Some f \<Rightarrow> (Inr (f v), s\<lparr>reported := reported s @ [v]\<rparr>))"

definition update :: "'w spawn \<Rightarrow> IvyEngine \<Rightarrow> (string \<Rightarrow> unit) option \<Rightarrow> ('w, unit) async" where
  "update sp e then_cb =
     (if \<not> vcsEnabled e then call then_cb ''Failure''
      else await (getCurrentVersion sp e) (\<lambda>local.
        await (getUpstreamVersion sp e) (\<lambda>remote.
          if toLowerCase local = toLowerCase remote then call then_cb local
          else await (execGit sp ''git pull'') (\<lambda>res.
            if res = [] then call then_cb ''Failure''
            else await (getCurrentVersion sp e) (\<lambda>v. call then_cb v)))))"

subsection \<open>The registries\<close>

text \<open>
  \<^verbatim>\<open>ModuleManager\<close> and \<^verbatim>\<open>CommandManager\<close> are classes of \<^verbatim>\<open>./module\<close>, which is
  not among the source files; the engine calls \<^verbatim>\<open>registerModule\<close>, \<^verbatim>\<open>init\<close>,
  \<^verbatim>\<open>registerCommand\<close>, \<^verbatim>\<open>registerTestFlow\<close> and \<^verbatim>\<open>registerGenericTestFlow\<close> on
  them.
\<close>

text \<open>Modelled from the spec: the insertion into a name-keyed, ordered registry, missing with
  \<^verbatim>\<open>./module\<close>. The specification has "register-by-name (overwrite on collision)" on an
  "ordered mapping": a new name goes to the end, a known name keeps its place and takes the
  new value.\<close>

fun upsert :: "'k \<Rightarrow> 'v \<Rightarrow> ('k \<times> 'v) list \<Rightarrow> ('k \<times> 'v) list" where
  "upsert k v [] = [(k, v)]"
| "upsert k v ((k', v') # kvs) =
     (if k = k' then (k, v) # kvs else (k', v') # upsert k v kvs)"

text \<open>Modelled from the spec: \<^verbatim>\<open>ModuleManager.registerModule\<close>, missing with
  \<^verbatim>\<open>./module\<close>: the module registry is an "ordered mapping from module name to module
  instance", registered by name.\<close>

definition ModuleManager_registerModule ::
    "Module \<Rightarrow> (string \<times> Module) list \<Rightarrow> (string \<times> Module) list" where
  "ModuleManager_registerModule m reg = upsert (mname m) m reg"

text \<open>Modelled from the spec: \<^verbatim>\<open>ModuleManager.init\<close>, missing with \<^verbatim>\<open>./module\<close>: "a bulk
  init() that invokes each registered module's initialization hook exactly once, in
  registration order".\<close>

definition ModuleManager_init :: "(string \<times> Module) list \<Rightarrow> event list" where
  "ModuleManager_init reg = map (\<lambda>entry. ModuleInit (snd entry)) reg"

text \<open>Modelled from the spec: \<^verbatim>\<open>CommandManager.registerCommand\<close>, missing with
  \<^verbatim>\<open>./module\<close>: "last registration for a given name wins (overwrite semantics)".\<close>

definition CommandManager_registerCommand ::
    "string \<Rightarrow> Command \<Rightarrow> (string \<times> Command) list \<Rightarrow> (string \<times> Command) list" where
  "CommandManager_registerCommand n c reg = upsert n c reg"

text \<open>Modelled from the spec: \<^verbatim>\<open>CommandManager.registerTestFlow\<close>, missing with
  \<^verbatim>\<open>./module\<close>: it "adds an unmanaged ... test flow" to the collection of flows.\<close>

definition CommandManager_registerTestFlow ::
    "TestCommand \<Rightarrow> (TestCommand \<times> Module option) list \<Rightarrow> (TestCommand \<times> Module option) list" where
  "CommandManager_registerTestFlow flow fl = fl @ [(flow, None)]"

text \<open>Modelled from the spec: \<^verbatim>\<open>CommandManager.registerGenericTestFlow\<close>, missing with
  \<^verbatim>\<open>./module\<close>: it adds a "module-managed test flow", bound to exactly one module.\<close>

definition CommandManager_registerGenericTestFlow ::
    "TestCommand \<Rightarrow> Module \<Rightarrow> (TestCommand \<times> Module option) list
       \<Rightarrow> (TestCommand \<times> Module option) list" where
  "CommandManager_registerGenericTestFlow flow m fl = fl @ [(flow, Some m)]"

subsection \<open>Registration methods and construction\<close>

definition registerCommand :: "string \<Rightarrow> Command \<Rightarrow> IvyEngine \<Rightarrow> IvyEngine" where
  "registerCommand n c e =
     e\<lparr>commandManager := CommandManager_registerCommand n c (commandManager e),
       trace := trace e @ [CommandRegistered n c]\<rparr>"

definition registerModule :: "Module \<Rightarrow> IvyEngine \<Rightarrow> IvyEngine" where
  "registerModule m e =
     e\<lparr>moduleManager := ModuleManager_registerModule m (moduleManager e),
       trace := trace e @ [ModuleRegistered m]\<rparr>"

definition registerFlow :: "TestCommand \<Rightarrow> IvyEngine \<Rightarrow> IvyEngine" where
  "registerFlow flow e =
     e\<lparr>flows := CommandManager_registerTestFlow flow (flows e),
       trace := trace e @ [FlowRegistered flow None]\<rparr>"

definition registerManagedFlow :: "TestCommand \<Rightarrow> Module \<Rightarrow> IvyEngine \<Rightarrow> IvyEngine" where
  "registerManagedFlow flow m e =
     e\<lparr>flows := CommandManager_registerGenericTestFlow flow m (flows e),
       trace := trace e @ [FlowRegistered flow (Some m)]\<rparr>"

fun perform :: "registration \<Rightarrow> IvyEngine \<Rightarrow> IvyEngine" where
  "perform (RegisterCommand n c) e = registerCommand n c e"
| "perform (RegisterModule m) e = registerModule m e"
| "perform (RegisterFlow flow) e = registerFlow flow e"
| "perform (RegisterManagedFlow flow m) e = registerManagedFlow flow m e"

text \<open>
  The abstract methods of the concrete bot and the startup hook receive the engine and call
  its registration methods; each is given by the calls it makes, in order. The trace notes
  the moment the hook is entered.
\<close>

record Bot =
  registerCommands :: "registration list"
  registerFlows :: "registration list"
  registerModules :: "registration list"

definition run_hook :: "hook \<Rightarrow> registration list \<Rightarrow> IvyEngine \<Rightarrow> IvyEngine" where
  "run_hook h rs e = fold perform rs (e\<lparr>trace := trace e @ [HookCalled h]\<rparr>)"

text \<open>
  The constructor, lines 89 to 132. \<^verbatim>\<open>!!opts.gitRepo\<close> is false for a missing and for an
  empty identifier. \<open>DefaultEventManager\<close> stands for the module
  \<^verbatim>\<open>new DefaultEventManager(this)\<close> of \<^verbatim>\<open>./module\<close>. The listener for \<^verbatim>\<open>ready\<close> is
  added after the login call; what it does when the client connects is outside construction.
\<close>

definition constructor :: "Module \<Rightarrow> Bot \<Rightarrow> IvyEngineOptions \<Rightarrow> IvyEngine" where
  "constructor DefaultEventManager concrete options =
     (let truthy = (case gitRepo options of None \<Rightarrow> False | Some r \<Rightarrow> r \<noteq> []);
          enabled =
            (if truthy \<and> \<not> GIT_REPO_PATTERN_test (String_of_optional (gitRepo options))
             then False else truthy);
          e0 = \<lparr>opts = options, vcsEnabled = enabled, moduleManager = [],
                commandManager = [], flows = [], trace = []\<rparr>;
          e1 = registerModule
                 (case eventHandler options of None \<Rightarrow> DefaultEventManager | Some m \<Rightarrow> m) e0;
          e2 = run_hook RegisterCommands (registerCommands concrete) e1;
          e3 = run_hook RegisterFlows (registerFlows concrete) e2;
          e4 = run_hook RegisterModules (registerModules concrete) e3;
          e5 = (case startup options of None \<Rightarrow> e4 | Some h \<Rightarrow> run_hook StartupRun h e4);
          e6 = e5\<lparr>trace := trace e5 @ ModuleManager_init (moduleManager e5)\<rparr>;
          e7 = e6\<lparr>trace := trace e6 @ [Login (token options), ReadyListenerAdded]\<rparr>
      in e7)"

section \<open>Reading a run and a trace\<close>

text \<open>The data of one stream, in arrival order.\<close>

fun stdout_data :: "chunk list \<Rightarrow> string list" where
  "stdout_data [] = []"
| "stdout_data (Stdout d # cs) = d # stdout_data cs"
| "stdout_data (Stderr d # cs) = stdout_data cs"

fun stderr_data :: "chunk list \<Rightarrow> string list" where
  "stderr_data [] = []"
| "stderr_data (Stdout d # cs) = stderr_data cs"
| "stderr_data (Stderr d # cs) = d # stderr_data cs"

text \<open>The event a registration call leaves in the trace, the modules a list of calls
  registers, and the names of a list of modules in order of first appearance.\<close>

fun registration_event :: "registration \<Rightarrow> event" where
  "registration_event (RegisterCommand n c) = CommandRegistered n c"
| "registration_event (RegisterModule m) = ModuleRegistered m"
| "registration_event (RegisterFlow flow) = FlowRegistered flow None"
| "registration_event (RegisterManagedFlow flow m) = FlowRegistered flow (Some m)"

fun modules_of :: "registration list \<Rightarrow> Module list" where
  "modules_of [] = []"
| "modules_of (RegisterModule m # rs) = m # modules_of rs"
| "modules_of (r # rs) = modules_of rs"




text \<open>An environment for worked examples: its state is the list of the runs to come, and
  each spawn takes the next one (a process killed by a signal once the list is used up).\<close>

definition scripted :: "run list spawn" where
  "scripted w cmd argv =
     (case w of
        [] \<Rightarrow> (Exits \<lparr>events = [], exit_code = None\<rparr>, [])
      | c # cs \<Rightarrow> (c, cs))"

definition exited :: "int \<Rightarrow> chunk list \<Rightarrow> run" where
  "exited n evs = Exits \<lparr>events = evs, exit_code = Some n\<rparr>"

definition start :: "'w \<Rightarrow> 'w sys" where
  "start w = \<lparr>world = w, spawned = [], reported = []\<rparr>"

definition engine :: "bool \<Rightarrow> string option \<Rightarrow> string list \<Rightarrow> IvyEngine" where
  "engine enabled repo supers =
     \<lparr>opts = \<lparr>token = ''t'', name = ''ivy'', gitRepo = repo, superPerms = supers,
              reportErrors = [], startup = None, eventHandler = None\<rparr>,
      vcsEnabled = enabled, moduleManager = [], commandManager = [], flows = [],
      trace = []\<rparr>"

text \<open>What \<^verbatim>\<open>update\<close> may do before it decides: between the two states nothing was
  handed to the callback, the processes spawned before are still the first ones, and none
  of the new ones is the pull (\<^verbatim>\<open>execGit('git pull')\<close> spawns \<^verbatim>\<open>git\<close> with the
  arguments \<^verbatim>\<open>git\<close> and \<^verbatim>\<open>pull\<close>).\<close>

definition queried_only :: "'w sys \<Rightarrow> 'w sys \<Rightarrow> bool" where
  "queried_only s s' =
     (reported s' = reported s
      \<and> take (length (spawned s)) (spawned s') = spawned s
      \<and> (''git'', [''git'', ''pull'']) \<notin> set (drop (length (spawned s)) (spawned s')))"

text \<open>Values for worked examples: a callback, a guild without members, options, the default
  event module and a concrete bot.\<close>

definition ignore_version :: "string \<Rightarrow> unit" where
  "ignore_version v = ()"

definition no_members :: "User \<Rightarrow> GuildMember option" where
  "no_members u = None"

definition options_for :: "string option \<Rightarrow> registration list option \<Rightarrow> IvyEngineOptions" where
  "options_for repo hook =
     \<lparr>token = ''t'', name = ''ivy'', gitRepo = repo, superPerms = [], reportErrors = [],
      startup = hook, eventHandler = None\<rparr>"

definition events_module :: Module where
  "events_module = \<lparr>mname = ''events'', ident = 0\<rparr>"

definition sample_bot :: Bot where
  "sample_bot =
     \<lparr>registerCommands = [RegisterCommand ''ping'' ''Ping''],
      registerFlows = [RegisterFlow ''demo''],
      registerModules = [RegisterModule \<lparr>mname = ''audio'', ident = 1\<rparr>,
                         RegisterModule \<lparr>mname = ''polls'', ident = 2\<rparr>]\<rparr>"

section \<open>Strings and runs: basic facts\<close>

lemma foldl_on_data:
  "foldl on_data out evs =
     \<lparr>stdout = stdout out @ stdout_data evs, stderr = stderr out @ stderr_data evs\<rparr>"
  by (induction evs arbitrary: out rule: stdout_data.induct) simp_all

lemma split_from_nonempty: "split_from c cur xs \<noteq> []"
  by (induction xs arbitrary: cur) simp_all

lemma join_str_Cons: "ys \<noteq> [] \<Longrightarrow> join_str sep (x # ys) = x @ sep @ join_str sep ys"
  by (cases ys) simp_all

lemma join_split_from: "join_str [c] (split_from c cur xs) = cur @ xs"
  by (induction xs arbitrary: cur) (simp_all add: join_str_Cons split_from_nonempty)

lemma split_from_no_sep:
  "c \<notin> set cur \<Longrightarrow> list_all (\<lambda>p. c \<notin> set p) (split_from c cur xs)"
  by (induction xs arbitrary: cur) simp_all

lemma length_split_from: "length (split_from c cur xs) = Suc (count_list xs c)"
  by (induction xs arbitrary: cur) simp_all

lemma hex_char_word_char: "hex_char c \<Longrightarrow> word_char c"
  by (auto simp: hex_char_def word_char_def)

lemma HASH_PATTERN_null: "\<not> HASH_PATTERN_test ''null''"
  by code_simp

text \<open>A string of 5 to 40 hexadecimal digits matches as a whole.\<close>

lemma HASH_PATTERN_whole:
  assumes "list_all hex_char out" and "5 \<le> length out" and "length out \<le> 40"
  shows "HASH_PATTERN_test out"
proof -
  have ne: "out \<noteq> []" using assms(2) by auto
  have first: "word_char (out ! 0)"
    using assms(1) ne by (simp add: list_all_length hex_char_word_char)
  have last: "word_char (out ! (length out - 1))"
    using assms(1) ne by (simp add: list_all_length hex_char_word_char)
  have "HASH_PATTERN_at out 0 (length out)"
    using assms(1) ne first last by (simp add: HASH_PATTERN_at_def word_boundary_def)
  moreover have "length out \<in> set [5..<41]"
    unfolding set_upt using assms(2,3) by simp
  moreover have "0 \<in> set [0..<Suc (length out)]" by simp
  ultimately show ?thesis
    unfolding HASH_PATTERN_test_def list_ex_iff by blast
qed

section \<open>The primitive \<^verbatim>\<open>execGit\<close>\<close>

lemma execGit_eq:
  "execGit sp args s =
     (let argv = split_str CHR '' '' args; run = sp (world s) ''git'' argv
      in (case fst run of
            SpawnError \<Rightarrow> Inl UncaughtError
          | Exits p \<Rightarrow>
              if exit_code p \<noteq> Some 0
              then Inl (Rejected (trim (concat (stderr_data (events p)))))
              else Inr (trim (concat (stdout_data (events p)))),
          s\<lparr>world := snd run, spawned := spawned s @ [(''git'', argv)]\<rparr>))"
  by (simp add: execGit_def foldl_on_data Let_def split: prod.splits run.splits)

text \<open>
  Claim C6, as amended. For every argument string and every outcome of the spawn,
  \<^verbatim>\<open>execGit\<close> spawns \<^verbatim>\<open>git\<close> with the argument string cut at each single space
  character: joining the pieces with a space gives the argument string back, no piece
  holds a space, and there is one piece more than there are spaces (so two spaces in a row
  give an empty argument, and a tab separates nothing). On exit the promise is rejected
  with the trimmed concatenation of the stderr data exactly when the exit code is not 0
  (a \<^verbatim>\<open>null\<close> code included), and otherwise resolved with the trimmed concatenation of
  the stdout data. A process that cannot be spawned never exits: its \<^verbatim>\<open>error\<close> event
  is uncaught.
\<close>

theorem execGit_contract:
  "execGit sp args s =
     (let argv = split_str CHR '' '' args; run = sp (world s) ''git'' argv
      in (case fst run of
            SpawnError \<Rightarrow> Inl UncaughtError
          | Exits p \<Rightarrow>
              if exit_code p \<noteq> Some 0
              then Inl (Rejected (trim (concat (stderr_data (events p)))))
              else Inr (trim (concat (stdout_data (events p)))),
          s\<lparr>world := snd run, spawned := spawned s @ [(''git'', argv)]\<rparr>))
   \<and> join_str '' '' (split_str CHR '' '' args) = args
   \<and> list_all (\<lambda>p. CHR '' '' \<notin> set p) (split_str CHR '' '' args)
   \<and> length (split_str CHR '' '' args) = Suc (count_list args CHR '' '')"
  using execGit_eq [of sp args s]
  by (simp add: split_str_def join_split_from split_from_no_sep length_split_from)

text \<open>Two runs: exit code 0 with output on both streams, and exit code 1.\<close>

theorem execGit_contract_witness:
  "execGit scripted ''rev-parse  HEAD''
      (start [exited 0 [Stdout '' abc'', Stderr ''warn'', Stdout ''def\<newline>'']])
     = (Inr ''abcdef'',
        \<lparr>world = [], spawned = [(''git'', [''rev-parse'', [], ''HEAD''])], reported = []\<rparr>)
   \<and> execGit scripted ''pull''
      (start [exited 1 [Stdout ''x'', Stderr ''fatal: no\<newline>'']])
     = (Inl (Rejected ''fatal: no''),
        \<lparr>world = [], spawned = [(''git'', [''pull''])], reported = []\<rparr>)"
  using execGit_contract [of scripted "''rev-parse  HEAD''"
      "start [exited 0 [Stdout '' abc'', Stderr ''warn'', Stdout ''def\<newline>'']]"]
    execGit_contract [of scripted "''pull''"
      "start [exited 1 [Stdout ''x'', Stderr ''fatal: no\<newline>'']]"]
  by (simp add: scripted_def start_def exited_def split_str_def trim_def isWhiteSpace_def Let_def)

text \<open>Claim C6 as stated fails on an argument string with a tab: the tab is whitespace, and
  the argument string reaches \<^verbatim>\<open>git\<close> as one argument with the tab inside.\<close>

theorem execGit_tab_counterexample:
  "spawned (snd (execGit scripted (''log'' @ [CHR 0x09] @ ''-1'') (start [exited 0 []])))
     = [(''git'', [''log'' @ [CHR 0x09] @ ''-1''])]
   \<and> isWhiteSpace (CHR 0x09)"
  by (simp add: execGit_def scripted_def start_def exited_def split_str_def isWhiteSpace_def
      Let_def)

section \<open>The current version\<close>

lemma rev_parse_HEAD_argv: "split_str CHR '' '' ''rev-parse HEAD'' = [''rev-parse'', ''HEAD'']"
  by (simp add: split_str_def)

lemma getCurrentVersion_disabled:
  "\<not> vcsEnabled e \<Longrightarrow> getCurrentVersion sp e s = (Inr ''unknown'', s)"
  by (simp add: getCurrentVersion_def resolve_def)

lemma getCurrentVersion_enabled:
  "vcsEnabled e \<Longrightarrow> getCurrentVersion sp e s =
     (let run = sp (world s) ''git'' [''rev-parse'', ''HEAD'']
      in (case fst run of
            SpawnError \<Rightarrow> Inl UncaughtError
          | Exits p \<Rightarrow>
              (let out = trim (concat (stdout_data (events p)))
               in Inr (if exit_code p = Some 0 \<and> HASH_PATTERN_test out
                       then take 7 out else ''unknown'')),
          s\<lparr>world := snd run, spawned := spawned s @ [(''git'', [''rev-parse'', ''HEAD''])]\<rparr>))"
  by (simp add: getCurrentVersion_def await_def catch_null_def execGit_eq resolve_def
      throw_def String_of_nullable_def HASH_PATTERN_null substring_def rev_parse_HEAD_argv
      Let_def split: run.splits)

text \<open>
  Claim C4, as amended. With VCS enabled, for every outcome of the subprocess: when the
  process runs and exits, \<^verbatim>\<open>getCurrentVersion\<close> resolves, to the first 7 characters of
  the trimmed output if the exit code is 0 and the trimmed output holds, somewhere, 5 to
  40 lowercase hexadecimal digits between word boundaries, and to \<^verbatim>\<open>unknown\<close> if not;
  when the trimmed output is itself 7 to 40 lowercase hexadecimal digits, that value is
  exactly 7 lowercase hexadecimal digits. When the process cannot be spawned,
  \<^verbatim>\<open>getCurrentVersion\<close> gives neither: the \<^verbatim>\<open>error\<close> event is uncaught and the
  promise never settles.
\<close>

theorem getCurrentVersion_value:
  assumes "vcsEnabled e"
  shows "case fst (sp (world s) ''git'' [''rev-parse'', ''HEAD'']) of
           SpawnError \<Rightarrow> fst (getCurrentVersion sp e s) = Inl UncaughtError
         | Exits p \<Rightarrow>
             (let out = trim (concat (stdout_data (events p)));
                  v = fst (getCurrentVersion sp e s)
              in v = Inr (if exit_code p = Some 0 \<and> HASH_PATTERN_test out
                          then take 7 out else ''unknown'')
                 \<and> (exit_code p = Some 0 \<and> list_all hex_char out \<and> 7 \<le> length out
                       \<and> length out \<le> 40
                     \<longrightarrow> v = Inr (take 7 out) \<and> length (take 7 out) = 7
                         \<and> list_all hex_char (take 7 out)))"
proof -
  have whole: "HASH_PATTERN_test out"
    if "list_all hex_char out" "7 \<le> length out" "length out \<le> 40" for out
    using that HASH_PATTERN_whole [of out] by simp
  have hex7: "list_all hex_char (take 7 out)" if "list_all hex_char out" for out
    using that by (auto simp: list_all_iff dest: in_set_takeD)
  show ?thesis
    using assms
    by (auto simp: getCurrentVersion_enabled Let_def whole hex7 split: run.splits)
qed

text \<open>The specification's scenarios A and B, and a \<^verbatim>\<open>git\<close> that cannot be spawned.\<close>

theorem getCurrentVersion_value_witness:
  "vcsEnabled (engine True (Some ''acme/bot'') [])
   \<and> fst (getCurrentVersion scripted (engine True (Some ''acme/bot'') [])
        (start [exited 0 [Stdout ''abcdef1234567890\<newline>'']])) = Inr ''abcdef1''
   \<and> fst (getCurrentVersion scripted (engine True (Some ''acme/bot'') [])
        (start [exited 128 [Stderr ''fatal: not a git repository'']])) = Inr ''unknown''
   \<and> fst (getCurrentVersion scripted (engine True (Some ''acme/bot'') [])
        (start [SpawnError])) = Inl UncaughtError"
proof -
  have en: "vcsEnabled (engine True (Some ''acme/bot'') [])"
    by (simp add: engine_def)
  have tr: "trim ''abcdef1234567890\<newline>'' = ''abcdef1234567890''"
    by (simp add: trim_def isWhiteSpace_def)
  have hp: "HASH_PATTERN_test ''abcdef1234567890''"
    by code_simp
  show ?thesis
    using en
      getCurrentVersion_value [OF en, of scripted
        "start [exited 0 [Stdout ''abcdef1234567890\<newline>'']]"]
      getCurrentVersion_value [OF en, of scripted
        "start [exited 128 [Stderr ''fatal: not a git repository'']]"]
      getCurrentVersion_value [OF en, of scripted "start [SpawnError]"]
    by (simp add: scripted_def start_def exited_def Let_def tr hp hex_char_def)
qed

text \<open>Claim C4 as stated fails three ways: an output of five hexadecimal digits passes the
  pattern and is returned whole, five characters long; an output that merely contains a
  hexadecimal word passes too, and its first seven characters are no hexadecimal digits;
  and when \<^verbatim>\<open>git\<close> cannot be spawned, no value is returned at all.\<close>

theorem getCurrentVersion_short_counterexample:
  "fst (getCurrentVersion scripted (engine True (Some ''acme/bot'') [])
        (start [exited 0 [Stdout ''abcde\<newline>'']])) = Inr ''abcde''
   \<and> fst (getCurrentVersion scripted (engine True (Some ''acme/bot'') [])
        (start [exited 0 [Stdout ''error: deadbeef'']])) = Inr ''error: ''
   \<and> \<not> hex_char CHR ''r''
   \<and> fst (getCurrentVersion scripted (engine True (Some ''acme/bot'') [])
        (start [SpawnError])) = Inl UncaughtError"
proof -
  have en: "vcsEnabled (engine True (Some ''acme/bot'') [])"
    by (simp add: engine_def)
  have t1: "trim ''abcde\<newline>'' = ''abcde''" "trim ''error: deadbeef'' = ''error: deadbeef''"
    by (simp_all add: trim_def isWhiteSpace_def)
  have h1: "HASH_PATTERN_test ''abcde''" by code_simp
  have h2: "HASH_PATTERN_test ''error: deadbeef''" by code_simp
  show ?thesis
    by (simp add: getCurrentVersion_enabled [OF en] scripted_def start_def exited_def Let_def
        t1 h1 h2 hex_char_def)
qed

text \<open>
  Claim C8. Two calls of \<^verbatim>\<open>getCurrentVersion\<close> in a row, the second in the state the
  first one left, give the same value when the subprocess runs the same both times. No
  value is kept between the calls: with VCS enabled each call spawns
  \<^verbatim>\<open>git rev-parse HEAD\<close> anew, and the engine holds no version field.
\<close>

theorem getCurrentVersion_twice:
  assumes "getCurrentVersion sp e s = (r1, s1)"
    and "getCurrentVersion sp e s1 = (r2, s2)"
    and "fst (sp (world s1) ''git'' [''rev-parse'', ''HEAD''])
           = fst (sp (world s) ''git'' [''rev-parse'', ''HEAD''])"
  shows "r1 = r2
    \<and> spawned s2 = spawned s @
         (if vcsEnabled e
          then [(''git'', [''rev-parse'', ''HEAD'']), (''git'', [''rev-parse'', ''HEAD''])]
          else [])"
proof (cases "vcsEnabled e")
  case True
  then show ?thesis
    using assms by (auto simp: getCurrentVersion_enabled Let_def)
next
  case False
  then show ?thesis
    using assms by (auto simp: getCurrentVersion_disabled)
qed

theorem getCurrentVersion_twice_witness:
  "fst (getCurrentVersion scripted (engine True (Some ''acme/bot'') [])
      (start [exited 0 [Stdout ''abcdef1234567890\<newline>''],
              exited 0 [Stdout ''abcdef1234567890\<newline>'']])) = Inr ''abcdef1''
   \<and> getCurrentVersion scripted (engine True (Some ''acme/bot'') [])
      (snd (getCurrentVersion scripted (engine True (Some ''acme/bot'') [])
         (start [exited 0 [Stdout ''abcdef1234567890\<newline>''],
                 exited 0 [Stdout ''abcdef1234567890\<newline>'']])))
     = (Inr ''abcdef1'',
        \<lparr>world = [],
         spawned = [(''git'', [''rev-parse'', ''HEAD'']), (''git'', [''rev-parse'', ''HEAD''])],
         reported = []\<rparr>)"
proof -
  define e where "e = engine True (Some ''acme/bot'') []"
  define run where "run = exited 0 [Stdout ''abcdef1234567890\<newline>'']"
  define s1 :: "run list sys" where
    "s1 = \<lparr>world = [run], spawned = [(''git'', [''rev-parse'', ''HEAD''])], reported = []\<rparr>"
  define s2 :: "run list sys" where
    "s2 = \<lparr>world = [],
           spawned = [(''git'', [''rev-parse'', ''HEAD'']), (''git'', [''rev-parse'', ''HEAD''])],
           reported = []\<rparr>"
  have en: "vcsEnabled e"
    by (simp add: e_def engine_def)
  have tr: "trim ''abcdef1234567890\<newline>'' = ''abcdef1234567890''"
    by (simp add: trim_def isWhiteSpace_def)
  have hp: "HASH_PATTERN_test ''abcdef1234567890''"
    by code_simp
  have a: "getCurrentVersion scripted e (start [run, run]) = (Inr ''abcdef1'', s1)"
    by (simp add: getCurrentVersion_enabled [OF en] scripted_def start_def run_def exited_def
        s1_def Let_def tr hp)
  have b: "getCurrentVersion scripted e s1 = (Inr ''abcdef1'', s2)"
    by (simp add: getCurrentVersion_enabled [OF en] scripted_def run_def exited_def
        s1_def s2_def Let_def tr hp)
  have c: "fst (scripted (world s1) ''git'' [''rev-parse'', ''HEAD''])
             = fst (scripted (world (start [run, run])) ''git'' [''rev-parse'', ''HEAD''])"
    by (simp add: scripted_def s1_def start_def)
  show ?thesis
    using getCurrentVersion_twice [OF a b c] a b
    by (simp add: e_def run_def s2_def)
qed

section \<open>The update\<close>

lemma queried_only_refl: "queried_only s s"
  by (simp add: queried_only_def)

lemma queried_only_trans:
  assumes "queried_only s s1" and "queried_only s1 s2"
  shows "queried_only s s2"
proof -
  obtain xs where xs: "spawned s1 = spawned s @ xs"
    using assms(1) by (metis queried_only_def append_take_drop_id)
  obtain ys where ys: "spawned s2 = spawned s1 @ ys"
    using assms(2) by (metis queried_only_def append_take_drop_id)
  show ?thesis
    using assms by (simp add: queried_only_def xs ys)
qed

lemma queried_only_execGit:
  assumes "split_str CHR '' '' args \<noteq> [''git'', ''pull'']"
    and "execGit sp args s = (r, s')"
  shows "queried_only s s'"
  using assms by (auto simp: execGit_eq queried_only_def Let_def)

lemma abbrev_ref_argv:
  "split_str CHR '' '' ''rev-parse --abbrev-ref HEAD'' = [''rev-parse'', ''--abbrev-ref'', ''HEAD'']"
  by (simp add: split_str_def)

lemma ls_remote_argv: "split_str CHR '' '' (ls_remote_args e channel) \<noteq> [''git'', ''pull'']"
  by (simp add: ls_remote_args_def split_str_def)

lemma git_pull_argv: "split_str CHR '' '' ''git pull'' = [''git'', ''pull'']"
  by (simp add: split_str_def)

text \<open>A query spawns no pull and reports nothing; it ends with a value, or, in an
  environment where \<^verbatim>\<open>git\<close> can fail to be spawned, with the uncaught error.\<close>

lemma execGit_uncaught:
  "execGit sp args s = (Inl UncaughtError, s') \<Longrightarrow> (\<exists>w argv. fst (sp w ''git'' argv) = SpawnError)"
  by (auto simp: execGit_eq Let_def split: run.splits if_splits)

lemma getCurrentVersion_ends:
  assumes "getCurrentVersion sp e s = (r, s')"
  shows "queried_only s s'" and "(r = Inl UncaughtError \<and> (\<exists>w argv. fst (sp w ''git'' argv) = SpawnError)) \<or> (\<exists>v. r = Inr v)"
proof -
  have "queried_only s s' \<and> ((r = Inl UncaughtError \<and> (\<exists>w argv. fst (sp w ''git'' argv) = SpawnError)) \<or> (\<exists>v. r = Inr v))"
  proof (cases "vcsEnabled e")
    case True
    then show ?thesis
      using assms
      by (auto simp: getCurrentVersion_enabled Let_def queried_only_def split: run.splits)
  next
    case False
    then show ?thesis
      using assms by (auto simp: getCurrentVersion_disabled queried_only_refl)
  qed
  then show "queried_only s s'" and "(r = Inl UncaughtError \<and> (\<exists>w argv. fst (sp w ''git'' argv) = SpawnError)) \<or> (\<exists>v. r = Inr v)"
    by simp_all
qed

lemma catch_null_execGit:
  assumes "catch_null (execGit sp args) s = (r, s')"
  shows "\<exists>r0. execGit sp args s = (r0, s')"
    and "(r = Inl UncaughtError \<and> (\<exists>w argv. fst (sp w ''git'' argv) = SpawnError)) \<or> (\<exists>v. r = Inr v)"
proof -
  obtain r0 s0 where ex: "execGit sp args s = (r0, s0)"
    by (cases "execGit sp args s")
  have s0: "s0 = s'"
    using assms ex by (auto simp: catch_null_def split: sum.splits error.splits)
  show "\<exists>r0. execGit sp args s = (r0, s')"
    using ex s0 by blast
  show "(r = Inl UncaughtError \<and> (\<exists>w argv. fst (sp w ''git'' argv) = SpawnError)) \<or> (\<exists>v. r = Inr v)"
  proof (cases "r0 = Inl UncaughtError")
    case True
    then have "r = Inl UncaughtError"
      using assms ex by (simp add: catch_null_def)
    then show ?thesis
      using execGit_uncaught [of sp args s s0] ex True by simp
  next
    case False
    then show ?thesis
      using assms ex by (auto simp: catch_null_def split: sum.splits error.splits)
  qed
qed

lemma getReleaseChannel_ends:
  assumes "getReleaseChannel sp e s = (r, s')"
  shows "queried_only s s'" and "(r = Inl UncaughtError \<and> (\<exists>w argv. fst (sp w ''git'' argv) = SpawnError)) \<or> (\<exists>v. r = Inr v)"
proof -
  have "queried_only s s' \<and> ((r = Inl UncaughtError \<and> (\<exists>w argv. fst (sp w ''git'' argv) = SpawnError)) \<or> (\<exists>v. r = Inr v))"
  proof (cases "vcsEnabled e")
    case True
    obtain r1 s1 where c: "catch_null (execGit sp ''rev-parse --abbrev-ref HEAD'') s = (r1, s1)"
      by (cases "catch_null (execGit sp ''rev-parse --abbrev-ref HEAD'') s")
    obtain r0 where ex: "execGit sp ''rev-parse --abbrev-ref HEAD'' s = (r0, s1)"
      using catch_null_execGit(1) [OF c] by blast
    have q: "queried_only s s1"
      using queried_only_execGit [OF _ ex] by (simp add: abbrev_ref_argv)
    show ?thesis
      using True assms c q catch_null_execGit(2) [OF c]
      by (auto simp: getReleaseChannel_def await_def resolve_def split: option.splits if_splits)
  next
    case False
    then show ?thesis
      using assms by (auto simp: getReleaseChannel_def resolve_def queried_only_refl)
  qed
  then show "queried_only s s'" and "(r = Inl UncaughtError \<and> (\<exists>w argv. fst (sp w ''git'' argv) = SpawnError)) \<or> (\<exists>v. r = Inr v)"
    by simp_all
qed

lemma getUpstreamVersion_ends:
  assumes "getUpstreamVersion sp e s = (r, s')"
  shows "queried_only s s'" and "(r = Inl UncaughtError \<and> (\<exists>w argv. fst (sp w ''git'' argv) = SpawnError)) \<or> (\<exists>v. r = Inr v)"
proof -
  have "queried_only s s' \<and> ((r = Inl UncaughtError \<and> (\<exists>w argv. fst (sp w ''git'' argv) = SpawnError)) \<or> (\<exists>v. r = Inr v))"
  proof (cases "vcsEnabled e")
    case True
    obtain rc s1 where ch: "getReleaseChannel sp e s = (rc, s1)"
      by (cases "getReleaseChannel sp e s")
    note q1 = getReleaseChannel_ends(1) [OF ch]
    from getReleaseChannel_ends(2) [OF ch] show ?thesis
    proof
      assume "rc = Inl UncaughtError \<and> (\<exists>w argv. fst (sp w ''git'' argv) = SpawnError)"
      then show ?thesis
        using True assms ch q1 by (auto simp: getUpstreamVersion_def await_def)
    next
      assume "\<exists>v. rc = Inr v"
      then obtain channel where rc: "rc = Inr channel" by blast
      obtain r1 s2 where c: "catch_null (execGit sp (ls_remote_args e channel)) s1 = (r1, s2)"
        by (cases "catch_null (execGit sp (ls_remote_args e channel)) s1")
      obtain r0 where ex: "execGit sp (ls_remote_args e channel) s1 = (r0, s2)"
        using catch_null_execGit(1) [OF c] by blast
      have q2: "queried_only s s2"
        using queried_only_trans [OF q1 queried_only_execGit [OF ls_remote_argv ex]] .
      show ?thesis
        using True assms ch rc c q2 catch_null_execGit(2) [OF c]
        by (auto simp: getUpstreamVersion_def await_def resolve_def
            split: option.splits if_splits)
    qed
  next
    case False
    then show ?thesis
      using assms by (auto simp: getUpstreamVersion_def resolve_def queried_only_refl)
  qed
  then show "queried_only s s'" and "(r = Inl UncaughtError \<and> (\<exists>w argv. fst (sp w ''git'' argv) = SpawnError)) \<or> (\<exists>v. r = Inr v)"
    by simp_all
qed

lemma update_disabled: "\<not> vcsEnabled e \<Longrightarrow> update sp e cb s = call cb ''Failure'' s"
  by (simp add: update_def)

lemma update_enabled:
  assumes "vcsEnabled e"
    and "getCurrentVersion sp e s = (Inr local, s1)"
    and "getUpstreamVersion sp e s1 = (Inr remote, s2)"
  shows "update sp e cb s =
     (if toLowerCase local = toLowerCase remote then call cb local s2
      else await (execGit sp ''git pull'') (\<lambda>res.
             if res = [] then call cb ''Failure''
             else await (getCurrentVersion sp e) (\<lambda>v. call cb v)) s2)"
  using assms by (simp add: update_def await_def)

lemma call_reported:
  "call (Some f) v s = (Inr (), s\<lparr>reported := reported s @ [v]\<rparr>)"
  "call None v s = (Inl TypeError, s)"
  by (simp_all add: call_def)

text \<open>Every way through \<^verbatim>\<open>update\<close> ends in a call of the callback, or in the rejection
  of the pull, or, in an environment where \<^verbatim>\<open>git\<close> can fail to be spawned, in the
  uncaught error.\<close>

lemma update_ends:
  "\<exists>s'. reported s' = reported s
     \<and> ((\<exists>v. update sp e cb s = call cb v s')
         \<or> (\<exists>msg. update sp e cb s = (Inl (Rejected msg), s'))
         \<or> (update sp e cb s = (Inl UncaughtError, s') \<and> (\<exists>w argv. fst (sp w ''git'' argv) = SpawnError)))"
proof (cases "vcsEnabled e")
  case False
  then show ?thesis
    using update_disabled by blast
next
  case True
  obtain rl s1 where l: "getCurrentVersion sp e s = (rl, s1)"
    by (cases "getCurrentVersion sp e s")
  have rep1: "reported s1 = reported s"
    using getCurrentVersion_ends(1) [OF l] by (simp add: queried_only_def)
  from getCurrentVersion_ends(2) [OF l] show ?thesis
  proof
    assume f: "rl = Inl UncaughtError \<and> (\<exists>w argv. fst (sp w ''git'' argv) = SpawnError)"
    then have "update sp e cb s = (Inl UncaughtError, s1)"
      using True l by (simp add: update_def await_def)
    then show ?thesis
      using f rep1 by blast
  next
    assume "\<exists>v. rl = Inr v"
    then obtain local where rl: "rl = Inr local" by blast
    obtain rr s2 where r: "getUpstreamVersion sp e s1 = (rr, s2)"
      by (cases "getUpstreamVersion sp e s1")
    have rep2: "reported s2 = reported s"
      using getUpstreamVersion_ends(1) [OF r] rep1 by (simp add: queried_only_def)
    from getUpstreamVersion_ends(2) [OF r] show ?thesis
    proof
      assume f: "rr = Inl UncaughtError \<and> (\<exists>w argv. fst (sp w ''git'' argv) = SpawnError)"
      then have "update sp e cb s = (Inl UncaughtError, s2)"
        using True l rl r by (simp add: update_def await_def)
      then show ?thesis
        using f rep2 by blast
    next
      assume "\<exists>v. rr = Inr v"
      then obtain remote where rr: "rr = Inr remote" by blast
      note upd = update_enabled [OF True l [unfolded rl] r [unfolded rr], of cb]
      show ?thesis
      proof (cases "toLowerCase local = toLowerCase remote")
        case True
        then show ?thesis using upd rep2 by auto
      next
        case differ: False
        obtain p s3 where pull: "execGit sp ''git pull'' s2 = (p, s3)"
          by (cases "execGit sp ''git pull'' s2")
        have rep3: "reported s3 = reported s"
          using pull rep2 by (auto simp: execGit_eq Let_def)
        have upd3: "update sp e cb s =
            (case p of Inl err \<Rightarrow> (Inl err, s3)
             | Inr res \<Rightarrow> if res = [] then call cb ''Failure'' s3
                 else await (getCurrentVersion sp e) (\<lambda>v. call cb v) s3)"
          using upd differ pull by (simp add: await_def split: sum.splits)
        show ?thesis
        proof (cases p)
          case (Inl err)
          then have "(err = UncaughtError \<and> (\<exists>w argv. fst (sp w ''git'' argv) = SpawnError)) \<or> (\<exists>msg. err = Rejected msg)"
            using pull execGit_uncaught [of sp "''git pull''" s2 s3]
            by (auto simp: execGit_eq Let_def split: run.splits if_splits)
          then show ?thesis
            using upd3 Inl rep3 by auto
        next
          case (Inr res)
          show ?thesis
          proof (cases "res = []")
            case True
            then show ?thesis
              using upd3 Inr rep3 by auto
          next
            case False
            obtain rv s4 where v: "getCurrentVersion sp e s3 = (rv, s4)"
              by (cases "getCurrentVersion sp e s3")
            have rep4: "reported s4 = reported s"
              using getCurrentVersion_ends(1) [OF v] rep3 by (simp add: queried_only_def)
            from getCurrentVersion_ends(2) [OF v] show ?thesis
            proof
              assume f: "rv = Inl UncaughtError \<and> (\<exists>w argv. fst (sp w ''git'' argv) = SpawnError)"
              then have "update sp e cb s = (Inl UncaughtError, s4)"
                using upd3 Inr False v by (simp add: await_def)
              then show ?thesis
                using f rep4 by blast
            next
              assume "\<exists>x. rv = Inr x"
              then obtain x where "rv = Inr x" by blast
              then have "update sp e cb s = call cb x s4"
                using upd3 Inr False v by (simp add: await_def)
              then show ?thesis
                using rep4 by blast
            qed
          qed
        qed
      qed
    qed
  qed
qed

lemma update_equal_versions:
  assumes "vcsEnabled e"
    and "getCurrentVersion sp e s = (Inr local, s1)"
    and "getUpstreamVersion sp e s1 = (Inr remote, s2)"
    and "toLowerCase local = toLowerCase remote"
  shows "update sp e (Some f) s = (Inr (), s2\<lparr>reported := reported s2 @ [local]\<rparr>)"
    and "reported s2 = reported s"
    and "(''git'', [''git'', ''pull'']) \<notin> set (drop (length (spawned s)) (spawned s2))"
proof -
  show "update sp e (Some f) s = (Inr (), s2\<lparr>reported := reported s2 @ [local]\<rparr>)"
    using update_enabled [OF assms(1-3)] assms(4) by (simp add: call_reported)
  have q: "queried_only s s2"
    using queried_only_trans [OF getCurrentVersion_ends(1) [OF assms(2)]
        getUpstreamVersion_ends(1) [OF assms(3)]] .
  show "reported s2 = reported s"
    using q by (simp add: queried_only_def)
  show "(''git'', [''git'', ''pull'']) \<notin> set (drop (length (spawned s)) (spawned s2))"
    using q by (simp add: queried_only_def)
qed

text \<open>
  Claim C5. With VCS enabled, when the current and the upstream version that
  \<^verbatim>\<open>update\<close> computes are equal up to letter case, \<^verbatim>\<open>update\<close> resolves after
  handing the current version to its callback, in the state the two queries left, and
  none of the processes it spawned is the pull.
\<close>

theorem update_noop_when_current:
  assumes "vcsEnabled e"
    and "getCurrentVersion sp e s = (Inr local, s1)"
    and "getUpstreamVersion sp e s1 = (Inr remote, s2)"
    and "toLowerCase local = toLowerCase remote"
  shows "update sp e (Some f) s = (Inr (), s2\<lparr>reported := reported s @ [local]\<rparr>)
    \<and> (''git'', [''git'', ''pull''])
         \<notin> set (drop (length (spawned s)) (spawned (snd (update sp e (Some f) s))))"
  using update_equal_versions(1) [OF assms, where f = f]
    update_equal_versions(2,3) [OF assms]
  by simp

text \<open>The current version is \<^verbatim>\<open>abcdef1\<close> and the upstream one \<^verbatim>\<open>ABCDEF1\<close>.\<close>

theorem update_noop_when_current_witness:
  "update scripted (engine True (Some ''acme/bot'') []) (Some ignore_version)
      (start [exited 0 [Stdout ''abcdef1234567890\<newline>''],
              exited 0 [Stdout ''main\<newline>''],
              exited 0 [Stdout ''ABCDEF1234\<newline>'']])
     = (Inr (),
        \<lparr>world = [],
         spawned = [(''git'', [''rev-parse'', ''HEAD'']),
                    (''git'', [''rev-parse'', ''--abbrev-ref'', ''HEAD'']),
                    (''git'', [''ls-remote'', ''git@github.com:acme/bot.git'', ''|'', ''grep'',
                               ''refs/heads/main'', ''|'', ''cut'', ''-f'', ''1''])],
         reported = [''abcdef1'']\<rparr>)"
proof -
  define e where "e = engine True (Some ''acme/bot'') []"
  define s :: "run list sys" where
    "s = start [exited 0 [Stdout ''abcdef1234567890\<newline>''],
                exited 0 [Stdout ''main\<newline>''],
                exited 0 [Stdout ''ABCDEF1234\<newline>'']]"
  define s1 :: "run list sys" where
    "s1 = \<lparr>world = [exited 0 [Stdout ''main\<newline>''], exited 0 [Stdout ''ABCDEF1234\<newline>'']],
           spawned = [(''git'', [''rev-parse'', ''HEAD''])], reported = []\<rparr>"
  define s2 :: "run list sys" where
    "s2 = \<lparr>world = [],
           spawned = [(''git'', [''rev-parse'', ''HEAD'']),
                      (''git'', [''rev-parse'', ''--abbrev-ref'', ''HEAD'']),
                      (''git'', [''ls-remote'', ''git@github.com:acme/bot.git'', ''|'', ''grep'',
                                 ''refs/heads/main'', ''|'', ''cut'', ''-f'', ''1''])],
           reported = []\<rparr>"
  have en: "vcsEnabled e"
    by (simp add: e_def engine_def)
  have a: "getCurrentVersion scripted e s = (Inr ''abcdef1'', s1)"
    unfolding e_def s_def s1_def by code_simp
  have b: "getUpstreamVersion scripted e s1 = (Inr ''ABCDEF1'', s2)"
    unfolding e_def s1_def s2_def by code_simp
  have c: "toLowerCase ''abcdef1'' = toLowerCase ''ABCDEF1''"
    by code_simp
  show ?thesis
    using update_noop_when_current [OF en a b c, of ignore_version]
    by (simp add: e_def s_def s2_def start_def)
qed

text \<open>
  Claim C9. With VCS enabled, when both queries inside \<^verbatim>\<open>update\<close> give
  \<^verbatim>\<open>unknown\<close>, \<^verbatim>\<open>update\<close> takes the branch of equal versions: it hands
  \<^verbatim>\<open>unknown\<close> to the callback, resolves, and spawns no pull, as it does when the
  checkout is up to date.
\<close>

theorem update_both_unknown:
  assumes "vcsEnabled e"
    and "getCurrentVersion sp e s = (Inr ''unknown'', s1)"
    and "getUpstreamVersion sp e s1 = (Inr ''unknown'', s2)"
  shows "update sp e (Some f) s = (Inr (), s2\<lparr>reported := reported s @ [''unknown'']\<rparr>)
    \<and> (''git'', [''git'', ''pull''])
         \<notin> set (drop (length (spawned s)) (spawned (snd (update sp e (Some f) s))))"
  using update_equal_versions(1) [OF assms refl, where f = f]
    update_equal_versions(2,3) [OF assms refl]
  by simp

text \<open>Every subprocess fails with exit code 128.\<close>

theorem update_both_unknown_witness:
  "update scripted (engine True (Some ''acme/bot'') []) (Some ignore_version)
      (start [exited 128 [Stderr ''fatal: not a git repository''],
              exited 128 [Stderr ''fatal: not a git repository''],
              exited 128 [Stderr ''fatal: not a git repository'']])
     = (Inr (),
        \<lparr>world = [],
         spawned = [(''git'', [''rev-parse'', ''HEAD'']),
                    (''git'', [''rev-parse'', ''--abbrev-ref'', ''HEAD'']),
                    (''git'', [''ls-remote'', ''git@github.com:acme/bot.git'', ''|'', ''grep'',
                               ''refs/heads/unknown'', ''|'', ''cut'', ''-f'', ''1''])],
         reported = [''unknown'']\<rparr>)"
proof -
  define e where "e = engine True (Some ''acme/bot'') []"
  define s :: "run list sys" where
    "s = start [exited 128 [Stderr ''fatal: not a git repository''],
                exited 128 [Stderr ''fatal: not a git repository''],
                exited 128 [Stderr ''fatal: not a git repository'']]"
  define s1 :: "run list sys" where
    "s1 = \<lparr>world = [exited 128 [Stderr ''fatal: not a git repository''],
                    exited 128 [Stderr ''fatal: not a git repository'']],
           spawned = [(''git'', [''rev-parse'', ''HEAD''])], reported = []\<rparr>"
  define s2 :: "run list sys" where
    "s2 = \<lparr>world = [],
           spawned = [(''git'', [''rev-parse'', ''HEAD'']),
                      (''git'', [''rev-parse'', ''--abbrev-ref'', ''HEAD'']),
                      (''git'', [''ls-remote'', ''git@github.com:acme/bot.git'', ''|'', ''grep'',
                                 ''refs/heads/unknown'', ''|'', ''cut'', ''-f'', ''1''])],
           reported = []\<rparr>"
  have en: "vcsEnabled e"
    by (simp add: e_def engine_def)
  have a: "getCurrentVersion scripted e s = (Inr ''unknown'', s1)"
    unfolding e_def s_def s1_def by code_simp
  have b: "getUpstreamVersion scripted e s1 = (Inr ''unknown'', s2)"
    unfolding e_def s1_def s2_def by code_simp
  show ?thesis
    using update_both_unknown [OF en a b, of ignore_version]
    by (simp add: e_def s_def s2_def start_def)
qed

text \<open>
  Claim C10. The callback of \<^verbatim>\<open>update\<close> is optional in its type only. Whatever the
  callback, \<^verbatim>\<open>update\<close> ends in a call of it, made without a test for its presence,
  or in the rejection a failed pull leaves; only in an environment where \<^verbatim>\<open>git\<close> can
  fail to be spawned is there a third end, the uncaught error, before any of these is
  reached. So without a callback \<^verbatim>\<open>update\<close> gives no value in any engine and any
  state, and nothing is reported.
\<close>

theorem update_without_callback:
  "(\<exists>err. fst (update sp e None s) = Inl err)
   \<and> reported (snd (update sp e None s)) = reported s
   \<and> (\<exists>s'. reported s' = reported s
         \<and> ((\<exists>v. update sp e cb s = call cb v s')
             \<or> (\<exists>msg. update sp e cb s = (Inl (Rejected msg), s'))
             \<or> (update sp e cb s = (Inl UncaughtError, s')
                 \<and> (\<exists>w argv. fst (sp w ''git'' argv) = SpawnError))))"
proof -
  have "\<exists>err. fst (update sp e None s) = Inl err"
    and "reported (snd (update sp e None s)) = reported s"
    using update_ends [of s sp e None] by (auto simp: call_reported)
  then show ?thesis
    using update_ends [of s sp e cb] by blast
qed

text \<open>The four branches that call the callback, each without one: VCS disabled, equal
  versions, a pull without output, and a pull with output.\<close>

theorem update_without_callback_witness:
  "update scripted (engine False None []) None (start []) = (Inl TypeError, start [])
   \<and> fst (update scripted (engine True (Some ''acme/bot'') []) None
        (start [exited 0 [Stdout ''abcdef1234567890\<newline>''],
                exited 0 [Stdout ''main\<newline>''],
                exited 0 [Stdout ''abcdef1234\<newline>'']])) = Inl TypeError
   \<and> fst (update scripted (engine True (Some ''acme/bot'') []) None
        (start [exited 0 [Stdout ''1234567890abcdef\<newline>''],
                exited 0 [Stdout ''main\<newline>''],
                exited 0 [Stdout ''abcdef1234\<newline>''],
                exited 0 [],
                exited 0 [Stdout ''abcdef1234567890\<newline>'']])) = Inl TypeError
   \<and> fst (update scripted (engine True (Some ''acme/bot'') []) None
        (start [exited 0 [Stdout ''1234567890abcdef\<newline>''],
                exited 0 [Stdout ''main\<newline>''],
                exited 0 [Stdout ''abcdef1234\<newline>''],
                exited 0 [Stdout ''Already up to date.\<newline>''],
                exited 0 [Stdout ''abcdef1234567890\<newline>'']])) = Inl TypeError"
proof -
  have "update scripted (engine False None []) None (start []) = (Inl TypeError, start [])"
    by code_simp
  moreover have "fst (update scripted (engine True (Some ''acme/bot'') []) None
        (start [exited 0 [Stdout ''abcdef1234567890\<newline>''],
                exited 0 [Stdout ''main\<newline>''],
                exited 0 [Stdout ''abcdef1234\<newline>'']])) = Inl TypeError"
    by code_simp
  moreover have "fst (update scripted (engine True (Some ''acme/bot'') []) None
        (start [exited 0 [Stdout ''1234567890abcdef\<newline>''],
                exited 0 [Stdout ''main\<newline>''],
                exited 0 [Stdout ''abcdef1234\<newline>''],
                exited 0 [],
                exited 0 [Stdout ''abcdef1234567890\<newline>'']])) = Inl TypeError"
    by code_simp
  moreover have "fst (update scripted (engine True (Some ''acme/bot'') []) None
        (start [exited 0 [Stdout ''1234567890abcdef\<newline>''],
                exited 0 [Stdout ''main\<newline>''],
                exited 0 [Stdout ''abcdef1234\<newline>''],
                exited 0 [Stdout ''Already up to date.\<newline>''],
                exited 0 [Stdout ''abcdef1234567890\<newline>'']])) = Inl TypeError"
    by code_simp
  ultimately show ?thesis
    using update_without_callback [of scripted "engine False None []" "start []" None]
    by simp
qed

text \<open>A pull that does not exit with code 0 rejects \<^verbatim>\<open>update\<close>, whatever the callback,
  and nothing is handed to the callback.\<close>

lemma update_pull_rejected:
  assumes "vcsEnabled e"
    and "getCurrentVersion sp e s = (Inr local, s1)"
    and "getUpstreamVersion sp e s1 = (Inr remote, s2)"
    and "toLowerCase local \<noteq> toLowerCase remote"
    and "fst (sp (world s2) ''git'' [''git'', ''pull'']) = Exits p"
    and "exit_code p \<noteq> Some 0"
  shows "\<exists>msg s3. update sp e cb s = (Inl (Rejected msg), s3) \<and> reported s3 = reported s"
proof -
  have "queried_only s s2"
    using queried_only_trans [OF getCurrentVersion_ends(1) [OF assms(2)]
        getUpstreamVersion_ends(1) [OF assms(3)]] .
  then have "reported s2 = reported s"
    by (simp add: queried_only_def)
  then show ?thesis
    using update_enabled [OF assms(1-3), of cb] assms(4-6)
    by (simp add: await_def execGit_eq git_pull_argv Let_def)
qed

text \<open>
  Claim C2 says that with VCS enabled, differing versions and a failing pull,
  \<^verbatim>\<open>update\<close> never raises and hands \<^verbatim>\<open>Failure\<close> to its callback. The code awaits
  \<^verbatim>\<open>execGit('git pull')\<close> without a \<^verbatim>\<open>catch\<close>: here the versions are
  \<^verbatim>\<open>1234567\<close> and \<^verbatim>\<open>abcdef1\<close>, the pull exits with code 1, the promise of
  \<^verbatim>\<open>update\<close> is rejected with the trimmed stderr, and the callback is not called.
\<close>

theorem update_pull_failure_rejects:
  "update scripted (engine True (Some ''acme/bot'') []) (Some ignore_version)
      (start [exited 0 [Stdout ''1234567890abcdef\<newline>''],
              exited 0 [Stdout ''main\<newline>''],
              exited 0 [Stdout ''abcdef1234\<newline>''],
              exited 1 [Stderr ''fatal: unable to access the remote\<newline>'']])
     = (Inl (Rejected ''fatal: unable to access the remote''),
        \<lparr>world = [],
         spawned = [(''git'', [''rev-parse'', ''HEAD'']),
                    (''git'', [''rev-parse'', ''--abbrev-ref'', ''HEAD'']),
                    (''git'', [''ls-remote'', ''git@github.com:acme/bot.git'', ''|'', ''grep'',
                               ''refs/heads/main'', ''|'', ''cut'', ''-f'', ''1'']),
                    (''git'', [''git'', ''pull''])],
         reported = []\<rparr>)"
  by code_simp

text \<open>The branch that hands over \<^verbatim>\<open>Failure\<close> is the one of a pull that exits with
  code 0 and prints nothing.\<close>

lemma update_empty_pull_output:
  "update scripted (engine True (Some ''acme/bot'') []) (Some ignore_version)
      (start [exited 0 [Stdout ''1234567890abcdef\<newline>''],
              exited 0 [Stdout ''main\<newline>''],
              exited 0 [Stdout ''abcdef1234\<newline>''],
              exited 0 []])
     = (Inr (),
        \<lparr>world = [],
         spawned = [(''git'', [''rev-parse'', ''HEAD'']),
                    (''git'', [''rev-parse'', ''--abbrev-ref'', ''HEAD'']),
                    (''git'', [''ls-remote'', ''git@github.com:acme/bot.git'', ''|'', ''grep'',
                               ''refs/heads/main'', ''|'', ''cut'', ''-f'', ''1'']),
                    (''git'', [''git'', ''pull''])],
         reported = [''Failure'']\<rparr>)"
  by code_simp

section \<open>Permissions\<close>

lemma has_member:
  "member guild user = Some m \<Longrightarrow>
     has e user permission guild
       = Inr (hasPermission m permission \<or> user_id user \<in> set (superPerms (opts e)))"
  by (auto simp: has_def list_ex_iff)

text \<open>
  Claim C1 says that a user whose identifier is among the superusers always gets true from
  \<^verbatim>\<open>has\<close>, also when the membership lookup gives nothing. The code looks the member up
  and calls \<^verbatim>\<open>hasPermission\<close> on the result before it tests the superusers: for the
  superuser \<^verbatim>\<open>42\<close> and a guild where the lookup is \<^verbatim>\<open>null\<close>, \<^verbatim>\<open>has\<close> throws.
\<close>

theorem has_superuser_not_member:
  "has (engine False None [''42'']) \<lparr>user_id = ''42''\<rparr> 8 \<lparr>member = no_members\<rparr>
     = Inl TypeError
   \<and> user_id \<lparr>user_id = ''42''\<rparr> \<in> set (superPerms (opts (engine False None [''42''])))"
  by (simp add: has_def no_members_def engine_def)

section \<open>Construction\<close>

lemma perform_keeps:
  "vcsEnabled (perform r e) = vcsEnabled e" "opts (perform r e) = opts e"
  by (cases r; simp add: registerCommand_def registerModule_def registerFlow_def
      registerManagedFlow_def)+

lemma fold_perform_keeps:
  "vcsEnabled (fold perform rs e) = vcsEnabled e" "opts (fold perform rs e) = opts e"
  by (induction rs arbitrary: e) (simp_all add: perform_keeps)

lemma trace_perform: "trace (perform r e) = trace e @ [registration_event r]"
  by (cases r) (simp_all add: registerCommand_def registerModule_def registerFlow_def
      registerManagedFlow_def)

lemma trace_fold_perform: "trace (fold perform rs e) = trace e @ map registration_event rs"
  by (induction rs arbitrary: e) (simp_all add: trace_perform)

lemma moduleManager_fold_perform:
  "moduleManager (fold perform rs e)
     = fold ModuleManager_registerModule (modules_of rs) (moduleManager e)"
  by (induction rs arbitrary: e rule: modules_of.induct)
    (simp_all add: registerCommand_def registerModule_def registerFlow_def
      registerManagedFlow_def)

lemma run_hook_facts:
  "vcsEnabled (run_hook h rs e) = vcsEnabled e"
  "opts (run_hook h rs e) = opts e"
  "trace (run_hook h rs e) = trace e @ HookCalled h # map registration_event rs"
  "moduleManager (run_hook h rs e)
     = fold ModuleManager_registerModule (modules_of rs) (moduleManager e)"
  by (simp_all add: run_hook_def fold_perform_keeps trace_fold_perform
      moduleManager_fold_perform)







lemma constructor_vcsEnabled:
  "vcsEnabled (constructor d concrete options)
     = (case gitRepo options of None \<Rightarrow> False | Some r \<Rightarrow> r \<noteq> [] \<and> GIT_REPO_PATTERN_test r)"
  by (auto simp: constructor_def Let_def run_hook_facts registerModule_def
      String_of_optional_def split: option.splits)






lemma GIT_REPO_PATTERN_needs_slash: "CHR ''/'' \<notin> set r \<Longrightarrow> \<not> GIT_REPO_PATTERN_test r"
proof
  assume no: "CHR ''/'' \<notin> set r" and "GIT_REPO_PATTERN_test r"
  then obtain i a b where "GIT_REPO_PATTERN_at r i a b"
    unfolding GIT_REPO_PATTERN_test_def list_ex_iff by blast
  then have "i + a < length r" and "r ! (i + a) = CHR ''/''"
    by (simp_all add: GIT_REPO_PATTERN_at_def)
  then show False
    using no nth_mem by metis
qed

lemma disabled_queries:
  assumes "\<not> vcsEnabled e"
  shows "getCurrentVersion sp e s = (Inr ''unknown'', s)"
    and "getUpstreamVersion sp e s = (Inr ''unknown'', s)"
    and "getReleaseChannel sp e s = (Inr ''unknown'', s)"
  using assms
  by (simp_all add: getCurrentVersion_def getUpstreamVersion_def getReleaseChannel_def
      resolve_def)

text \<open>
  Claim C3, as amended. For every repository identifier that is the empty string, or has no
  slash, or more generally holds no word character, slash, word character in a row,
  construction leaves VCS disabled (construction has no failing branch), and from then on
  \<^verbatim>\<open>getCurrentVersion\<close>, \<^verbatim>\<open>getUpstreamVersion\<close> and \<^verbatim>\<open>getReleaseChannel\<close>
  resolve to \<^verbatim>\<open>unknown\<close> without spawning a process.
\<close>

theorem malformed_repository_disables_vcs:
  assumes "gitRepo options = Some r"
    and "r = [] \<or> CHR ''/'' \<notin> set r \<or> \<not> GIT_REPO_PATTERN_test r"
  shows "\<not> vcsEnabled (constructor d concrete options)
    \<and> getCurrentVersion sp (constructor d concrete options) s = (Inr ''unknown'', s)
    \<and> getUpstreamVersion sp (constructor d concrete options) s = (Inr ''unknown'', s)
    \<and> getReleaseChannel sp (constructor d concrete options) s = (Inr ''unknown'', s)"
proof -
  have "\<not> vcsEnabled (constructor d concrete options)"
    using assms GIT_REPO_PATTERN_needs_slash [of r] by (auto simp: constructor_vcsEnabled)
  then show ?thesis
    by (simp add: disabled_queries)
qed

text \<open>The identifiers \<^verbatim>\<open>acmebot\<close> and the empty string.\<close>

theorem malformed_repository_disables_vcs_witness:
  "\<not> vcsEnabled (constructor events_module sample_bot (options_for (Some ''acmebot'') None))
   \<and> getCurrentVersion scripted
        (constructor events_module sample_bot (options_for (Some ''acmebot'') None))
        (start [exited 0 [Stdout ''abcdef1234567890\<newline>'']])
      = (Inr ''unknown'', start [exited 0 [Stdout ''abcdef1234567890\<newline>'']])
   \<and> \<not> vcsEnabled (constructor events_module sample_bot (options_for (Some '''') None))
   \<and> getReleaseChannel scripted
        (constructor events_module sample_bot (options_for (Some '''') None))
        (start [exited 0 [Stdout ''main\<newline>'']])
      = (Inr ''unknown'', start [exited 0 [Stdout ''main\<newline>'']])"
proof -
  have a: "gitRepo (options_for (Some ''acmebot'') None) = Some ''acmebot''"
    and b: "gitRepo (options_for (Some '''') None) = Some ''''"
    by (simp_all add: options_for_def)
  have c: "''acmebot'' = [] \<or> CHR ''/'' \<notin> set ''acmebot'' \<or> \<not> GIT_REPO_PATTERN_test ''acmebot''"
    by simp
  have d: "'''' = [] \<or> CHR ''/'' \<notin> set '''' \<or> \<not> GIT_REPO_PATTERN_test ''''"
    by simp
  show ?thesis
    using malformed_repository_disables_vcs [OF a c, where d = events_module
        and concrete = sample_bot and sp = scripted
        and s = "start [exited 0 [Stdout ''abcdef1234567890\<newline>'']]"]
      malformed_repository_disables_vcs [OF b d, where d = events_module
        and concrete = sample_bot and sp = scripted
        and s = "start [exited 0 [Stdout ''main\<newline>'']]"]
    by simp
qed

text \<open>Claim C3 as stated fails for an identifier of three segments: the pattern has no
  anchors and finds \<^verbatim>\<open>acme/bot\<close> inside \<^verbatim>\<open>acme/bot/extra\<close>, VCS stays enabled, and a
  version query returns a commit identifier.\<close>

theorem extra_segment_counterexample:
  "vcsEnabled (constructor events_module sample_bot (options_for (Some ''acme/bot/extra'') None))
   \<and> fst (getCurrentVersion scripted
        (constructor events_module sample_bot (options_for (Some ''acme/bot/extra'') None))
        (start [exited 0 [Stdout ''abcdef1234567890\<newline>'']])) = Inr ''abcdef1''"
proof -
  have m: "GIT_REPO_PATTERN_test ''acme/bot/extra''"
    by code_simp
  have en: "vcsEnabled (constructor events_module sample_bot (options_for (Some ''acme/bot/extra'') None))"
    by (simp add: constructor_vcsEnabled options_for_def m)
  have tr: "trim ''abcdef1234567890\<newline>'' = ''abcdef1234567890''"
    by (simp add: trim_def isWhiteSpace_def)
  have hp: "HASH_PATTERN_test ''abcdef1234567890''"
    by code_simp
  show ?thesis
    using en
    by (simp add: getCurrentVersion_enabled [OF en] scripted_def start_def exited_def Let_def tr hp)
qed




end
